theory Spec2Isabelle
  imports Complex_Main "HOL-Library.Word"
begin

unbundle bit_operations_syntax

section \<open>Go values\<close>

subsection \<open>float64\<close>

text \<open>
  A Go \<open>float64\<close> is modelled by its value: a finite real, one of the two infinities,
  or NaN. The IEEE 754 rules for the special values are written out below (a
  comparison with NaN is false, a non-zero finite value divided by zero is an
  infinity, the square root and the logarithm of a negative value are NaN). On finite
  values the operations are the exact real ones: rounding to 53 bits and overflow of
  a finite result are not part of the model, and the model has one zero, which stands
  for Go's positive zero (a negative zero differs from it only as a divisor).
\<close>

datatype float64 = Fin real | PInf | NInf | NaN

fun fneg :: "float64 \<Rightarrow> float64" where
  "fneg (Fin x) = Fin (- x)"
| "fneg PInf = NInf"
| "fneg NInf = PInf"
| "fneg NaN = NaN"

fun fabs :: "float64 \<Rightarrow> float64" where
  "fabs (Fin x) = Fin \<bar>x\<bar>"
| "fabs PInf = PInf"
| "fabs NInf = PInf"
| "fabs NaN = NaN"

fun fadd :: "float64 \<Rightarrow> float64 \<Rightarrow> float64" where
  "fadd NaN _ = NaN"
| "fadd _ NaN = NaN"
| "fadd (Fin x) (Fin y) = Fin (x + y)"
| "fadd PInf NInf = NaN"
| "fadd NInf PInf = NaN"
| "fadd PInf _ = PInf"
| "fadd NInf _ = NInf"
| "fadd _ PInf = PInf"
| "fadd _ NInf = NInf"

definition fsub :: "float64 \<Rightarrow> float64 \<Rightarrow> float64" where
  "fsub a b = fadd a (fneg b)"

text \<open>The sign of an infinite product or quotient, from the sign of the finite operand.\<close>

definition inf_signed :: "bool \<Rightarrow> float64" where
  "inf_signed positive = (if positive then PInf else NInf)"

fun fmul :: "float64 \<Rightarrow> float64 \<Rightarrow> float64" where
  "fmul NaN _ = NaN"
| "fmul _ NaN = NaN"
| "fmul (Fin x) (Fin y) = Fin (x * y)"
| "fmul (Fin x) PInf = (if x = 0 then NaN else inf_signed (0 < x))"
| "fmul (Fin x) NInf = (if x = 0 then NaN else inf_signed (x < 0))"
| "fmul PInf (Fin y) = (if y = 0 then NaN else inf_signed (0 < y))"
| "fmul NInf (Fin y) = (if y = 0 then NaN else inf_signed (y < 0))"
| "fmul PInf PInf = PInf"
| "fmul NInf NInf = PInf"
| "fmul PInf NInf = NInf"
| "fmul NInf PInf = NInf"

fun fdiv :: "float64 \<Rightarrow> float64 \<Rightarrow> float64" where
  "fdiv NaN _ = NaN"
| "fdiv _ NaN = NaN"
| "fdiv (Fin x) (Fin y) =
     (if y \<noteq> 0 then Fin (x / y)
      else if x = 0 then NaN
      else inf_signed (0 < x))"
| "fdiv (Fin x) PInf = Fin 0"
| "fdiv (Fin x) NInf = Fin 0"
| "fdiv PInf (Fin y) = inf_signed (0 \<le> y)"
| "fdiv NInf (Fin y) = inf_signed (y < 0)"
| "fdiv PInf PInf = NaN"
| "fdiv PInf NInf = NaN"
| "fdiv NInf PInf = NaN"
| "fdiv NInf NInf = NaN"

text \<open>\<open>a < b\<close> on float64; \<open>a > b\<close> is \<open>flt b a\<close>. False as soon as one side is NaN.\<close>

fun flt :: "float64 \<Rightarrow> float64 \<Rightarrow> bool" where
  "flt NaN _ = False"
| "flt _ NaN = False"
| "flt (Fin x) (Fin y) = (x < y)"
| "flt (Fin x) PInf = True"
| "flt (Fin x) NInf = False"
| "flt PInf _ = False"
| "flt NInf NInf = False"
| "flt NInf _ = True"

definition fgt :: "float64 \<Rightarrow> float64 \<Rightarrow> bool" where
  "fgt a b = flt b a"

text \<open>\<open>a != b\<close> on float64: NaN differs from everything, itself included.\<close>

fun fne :: "float64 \<Rightarrow> float64 \<Rightarrow> bool" where
  "fne NaN _ = True"
| "fne _ NaN = True"
| "fne a b = (a \<noteq> b)"

text \<open>\<open>math.Sqrt\<close>, \<open>math.Log10\<close> and \<open>math.Pow(10, y)\<close>.\<close>

fun fsqrt :: "float64 \<Rightarrow> float64" where
  "fsqrt (Fin x) = (if x < 0 then NaN else Fin (sqrt x))"
| "fsqrt PInf = PInf"
| "fsqrt NInf = NaN"
| "fsqrt NaN = NaN"

fun flog10 :: "float64 \<Rightarrow> float64" where
  "flog10 (Fin x) = (if x < 0 then NaN else if x = 0 then NInf else Fin (log 10 x))"
| "flog10 PInf = PInf"
| "flog10 NInf = NaN"
| "flog10 NaN = NaN"

fun fpow10 :: "float64 \<Rightarrow> float64" where
  "fpow10 (Fin y) = Fin (10 powr y)"
| "fpow10 PInf = PInf"
| "fpow10 NInf = Fin 0"
| "fpow10 NaN = NaN"

subsection \<open>Bytes and 16-bit samples\<close>

type_synonym byte = "8 word"
type_synonym int16 = "16 word"

text \<open>
  An \<open>int16\<close> is a 16-bit word read in two's complement by \<open>sint\<close>; \<open>*\<close> and
  unary minus wrap as Go's do.

  \<open>sample := int16(data[j]) | int16(data[j+1])<<8\<close>
\<close>

definition sample_of :: "byte \<Rightarrow> byte \<Rightarrow> int16" where
  "sample_of lo hi = (ucast lo :: int16) OR push_bit 8 (ucast hi :: int16)"

text \<open>\<open>byte(s & 0xFF)\<close> and \<open>byte((s >> 8) & 0xFF)\<close>; \<open>>>\<close> on an int16 is arithmetic.\<close>

definition lo_byte :: "int16 \<Rightarrow> byte" where
  "lo_byte s = ucast (s AND 0xFF)"

definition hi_byte :: "int16 \<Rightarrow> byte" where
  "hi_byte s = ucast (signed_drop_bit 8 s AND 0xFF)"

text \<open>\<open>float64(sample)\<close>.\<close>

definition float_of_int16 :: "int16 \<Rightarrow> float64" where
  "float_of_int16 s = Fin (real_of_int (sint s))"

text \<open>\<open>float64(n)\<close> for a Go \<open>int\<close>.\<close>

definition float_of_int :: "int \<Rightarrow> float64" where
  "float_of_int n = Fin (real_of_int n)"

text \<open>
  \<open>int16(x)\<close> for a float64 \<open>x\<close>: the fraction is discarded (truncation towards
  zero). Go leaves the result open when the value does not fit; on amd64 the
  conversion goes through a 64-bit integer, of which the low 16 bits are kept, and NaN
  and the infinities give 0. In the stages below only NaN reaches that case: the
  compressor clamps to the 16-bit range before it converts, and the limiter converts a
  ceiling that the magnitude of a sample exceeds.
\<close>

definition trunc_real :: "real \<Rightarrow> int" where
  "trunc_real x = (if 0 \<le> x then \<lfloor>x\<rfloor> else \<lceil>x\<rceil>)"

fun int16_of_float :: "float64 \<Rightarrow> int16" where
  "int16_of_float (Fin x) = word_of_int (trunc_real x)"
| "int16_of_float _ = 0"

text \<open>A run-time panic of Go aborts the call: it is the left summand of a result.\<close>

datatype panic = IndexOutOfRange | MakeSliceLenOutOfRange

text \<open>The samples that a byte block holds, two bytes each (a last odd byte holds none).\<close>

fun samples :: "byte list \<Rightarrow> int16 list" where
  "samples (lo # hi # rest) = sample_of lo hi # samples rest"
| "samples _ = []"

text \<open>The magnitude that the dynamics stages compare: \<open>math.Abs(float64(sample))\<close>.\<close>

definition magnitude :: "int16 \<Rightarrow> float64" where
  "magnitude s = fabs (float_of_int16 s)"

section \<open>Level meters\<close>

subsection \<open>The endpoint meter: Input.calculateLevel\<close>

text \<open>
  The loop \<open>for j := 0; j < len(data); j += 2\<close> reads \<open>data[j]\<close> and \<open>data[j+1]\<close>:
  it walks the block two bytes at a time, and on a block of odd length the last
  iteration indexes one past the end, which panics. The recursion below takes the same
  two bytes off the front; \<open>acc\<close> is the running \<open>sum\<close>. \<open>sample * sample\<close> is
  a product of two int16 values, so it is taken in 16 bits before the conversion to
  float64.
\<close>

fun Input_calculateLevel_loop :: "float64 \<Rightarrow> byte list \<Rightarrow> panic + float64" where
  "Input_calculateLevel_loop acc [] = Inr acc"
| "Input_calculateLevel_loop acc [b] = Inl IndexOutOfRange"
| "Input_calculateLevel_loop acc (lo # hi # rest) =
     (let sample = sample_of lo hi
      in Input_calculateLevel_loop (fadd acc (float_of_int16 (sample * sample))) rest)"

text \<open>The new value of the endpoint's \<open>level\<close> field.\<close>

definition Input_calculateLevel :: "byte list \<Rightarrow> panic + float64" where
  "Input_calculateLevel data =
     (if length data = 0 then Inr (Fin 0)
      else
        let sampleCount = int (length data) div 2
        in case Input_calculateLevel_loop (Fin 0) data of
             Inl p \<Rightarrow> Inl p
           | Inr sumsq \<Rightarrow>
               let rms = fsqrt (fdiv sumsq (float_of_int sampleCount))
               in if fgt rms (Fin 0)
                  then Inr (fmul (Fin 20) (flog10 (fdiv rms (Fin 32767))))
                  else Inr (Fin (- 96)))"

section \<open>The dynamics chain: APRSProcessor\<close>

text \<open>
  The lock is left out. \<open>clippingCount\<close> is a Go \<open>int\<close>, 64 bits wide; it is
  modelled by an unbounded integer, one count per clipped sample being far from the
  2^63 that would wrap it.
\<close>

record APRSProcessor =
  noiseGateThreshold :: float64
  compressionRatio :: float64
  peakThreshold :: float64
  isNoiseGateEnabled :: bool
  isCompressorEnabled :: bool
  isLimiterEnabled :: bool
  peakLevel :: float64
  rmsLevel :: float64
  clippingCount :: int

text \<open>The fields that the constructor does not name have Go's zero values.\<close>

definition NewAPRSProcessor :: APRSProcessor where
  "NewAPRSProcessor =
     \<lparr> noiseGateThreshold = Fin (- 40),
       compressionRatio = Fin 4,
       peakThreshold = Fin (- 3),
       isNoiseGateEnabled = True,
       isCompressorEnabled = True,
       isLimiterEnabled = True,
       peakLevel = Fin 0,
       rmsLevel = Fin 0,
       clippingCount = 0 \<rparr>"

subsection \<open>The processor meter: calculateLevels\<close>

text \<open>The loop carries \<open>sum\<close> (here \<open>acc\<close>) and \<open>peak\<close>; the square is taken in float64.\<close>

fun calculateLevels_loop :: "float64 \<Rightarrow> float64 \<Rightarrow> byte list \<Rightarrow> panic + float64 \<times> float64" where
  "calculateLevels_loop acc peak [] = Inr (acc, peak)"
| "calculateLevels_loop acc peak [b] = Inl IndexOutOfRange"
| "calculateLevels_loop acc peak (lo # hi # rest) =
     (let sample = sample_of lo hi;
          sampleAbs = fabs (float_of_int16 sample)
      in calculateLevels_loop (fadd acc (fmul sampleAbs sampleAbs))
           (if fgt sampleAbs peak then sampleAbs else peak) rest)"

definition calculateLevels :: "APRSProcessor \<Rightarrow> byte list \<Rightarrow> panic + APRSProcessor" where
  "calculateLevels ap data =
     (if length data = 0 then Inr (ap\<lparr>peakLevel := Fin (- 96), rmsLevel := Fin (- 96)\<rparr>)
      else
        let sampleCount = int (length data) div 2
        in case calculateLevels_loop (Fin 0) (Fin 0) data of
             Inl p \<Rightarrow> Inl p
           | Inr (sumsq, peak) \<Rightarrow>
               let rms = fsqrt (fdiv sumsq (float_of_int sampleCount));
                   ap1 = (if fgt rms (Fin 0)
                          then ap\<lparr>rmsLevel := fmul (Fin 20) (flog10 (fdiv rms (Fin 32767)))\<rparr>
                          else ap\<lparr>rmsLevel := Fin (- 96)\<rparr>)
               in if fgt peak (Fin 0)
                  then Inr (ap1\<lparr>peakLevel := fmul (Fin 20) (flog10 (fdiv peak (Fin 32767)))\<rparr>)
                  else Inr (ap1\<lparr>peakLevel := Fin (- 96)\<rparr>))"

subsection \<open>The three stages\<close>

text \<open>
  Each stage is a loop of the same shape as the meters': iteration \<open>j\<close> reads the bytes
  \<open>j\<close> and \<open>j+1\<close> and writes back to these two only, so the block after the loop is
  the block of the rewritten pairs; a last odd byte makes the loop panic.

  \<open>math.Pow(10, dB/20.0) * 32767.0\<close>:
\<close>

definition linear_of_db :: "float64 \<Rightarrow> float64" where
  "linear_of_db db = fmul (fpow10 (fdiv db (Fin 20))) (Fin 32767)"

fun applyNoiseGate_loop :: "float64 \<Rightarrow> byte list \<Rightarrow> panic + byte list" where
  "applyNoiseGate_loop threshold [] = Inr []"
| "applyNoiseGate_loop threshold [b] = Inl IndexOutOfRange"
| "applyNoiseGate_loop threshold (lo # hi # rest) =
     (let sample = sample_of lo hi;
          sampleAbs = fabs (float_of_int16 sample);
          pair = (if flt sampleAbs threshold then [0, 0] else [lo, hi])
      in case applyNoiseGate_loop threshold rest of
           Inl p \<Rightarrow> Inl p
         | Inr out \<Rightarrow> Inr (pair @ out))"

definition applyNoiseGate :: "APRSProcessor \<Rightarrow> byte list \<Rightarrow> panic + byte list" where
  "applyNoiseGate ap data =
     (let threshold = linear_of_db (noiseGateThreshold ap)
      in applyNoiseGate_loop threshold data)"

text \<open>What the compressor writes for a sample above the knee.\<close>

definition compress_sample :: "float64 \<Rightarrow> float64 \<Rightarrow> int16 \<Rightarrow> int16" where
  "compress_sample threshold ratio sample =
     (let sampleAbs = fabs (float_of_int16 sample);
          excess = fsub sampleAbs threshold;
          compressedExcess = fdiv excess ratio;
          newSample = fadd threshold compressedExcess;
          newSample = (if sint sample < 0 then fneg newSample else newSample);
          newSample = (if fgt newSample (Fin 32767) then Fin 32767
                       else if flt newSample (Fin (- 32768)) then Fin (- 32768)
                       else newSample)
      in int16_of_float newSample)"

fun applyCompressor_loop :: "float64 \<Rightarrow> float64 \<Rightarrow> byte list \<Rightarrow> panic + byte list" where
  "applyCompressor_loop threshold ratio [] = Inr []"
| "applyCompressor_loop threshold ratio [b] = Inl IndexOutOfRange"
| "applyCompressor_loop threshold ratio (lo # hi # rest) =
     (let sample = sample_of lo hi;
          sampleAbs = fabs (float_of_int16 sample);
          pair = (if fgt sampleAbs threshold
                  then (let newSampleInt16 = compress_sample threshold ratio sample
                        in [lo_byte newSampleInt16, hi_byte newSampleInt16])
                  else [lo, hi])
      in case applyCompressor_loop threshold ratio rest of
           Inl p \<Rightarrow> Inl p
         | Inr out \<Rightarrow> Inr (pair @ out))"

definition applyCompressor :: "APRSProcessor \<Rightarrow> byte list \<Rightarrow> panic + byte list" where
  "applyCompressor ap data =
     (let threshold = linear_of_db (Fin (- 20));
          ratio = compressionRatio ap
      in applyCompressor_loop threshold ratio data)"

text \<open>What the limiter writes for a sample above the ceiling.\<close>

definition clip_sample :: "float64 \<Rightarrow> int16 \<Rightarrow> int16" where
  "clip_sample threshold sample =
     (if 0 < sint sample then int16_of_float threshold else - int16_of_float threshold)"

text \<open>The limiter's loop also counts: \<open>count\<close> is \<open>ap.clippingCount\<close> as the loop goes.\<close>

fun applyLimiter_loop :: "float64 \<Rightarrow> int \<Rightarrow> byte list \<Rightarrow> panic + byte list \<times> int" where
  "applyLimiter_loop threshold count [] = Inr ([], count)"
| "applyLimiter_loop threshold count [b] = Inl IndexOutOfRange"
| "applyLimiter_loop threshold count (lo # hi # rest) =
     (let sample = sample_of lo hi;
          sampleAbs = fabs (float_of_int16 sample);
          clipped = fgt sampleAbs threshold;
          pair = (if clipped
                  then (let sample = clip_sample threshold sample
                        in [lo_byte sample, hi_byte sample])
                  else [lo, hi])
      in case applyLimiter_loop threshold (if clipped then count + 1 else count) rest of
           Inl p \<Rightarrow> Inl p
         | Inr (out, count') \<Rightarrow> Inr (pair @ out, count'))"

definition applyLimiter :: "APRSProcessor \<Rightarrow> byte list \<Rightarrow> panic + byte list \<times> APRSProcessor" where
  "applyLimiter ap data =
     (let threshold = linear_of_db (peakThreshold ap)
      in case applyLimiter_loop threshold (clippingCount ap) data of
           Inl p \<Rightarrow> Inl p
         | Inr (out, count) \<Rightarrow> Inr (out, ap\<lparr>clippingCount := count\<rparr>))"

subsection \<open>ProcessAudio\<close>

text \<open>
  The result is the copy of the input that the stages rewrote, with the processor
  after the call. \<open>sampleRate\<close> and \<open>channels\<close> are not read.
\<close>

definition ProcessAudio ::
  "APRSProcessor \<Rightarrow> byte list \<Rightarrow> int \<Rightarrow> int \<Rightarrow> panic + byte list \<times> APRSProcessor" where
  "ProcessAudio ap input sampleRate channels =
     (let output = input
      in case calculateLevels ap output of
           Inl p \<Rightarrow> Inl p
         | Inr ap \<Rightarrow>
             (case (if isNoiseGateEnabled ap then applyNoiseGate ap output else Inr output) of
                Inl p \<Rightarrow> Inl p
              | Inr output \<Rightarrow>
                  (case (if isCompressorEnabled ap then applyCompressor ap output else Inr output) of
                     Inl p \<Rightarrow> Inl p
                   | Inr output \<Rightarrow>
                       (if isLimiterEnabled ap then applyLimiter ap output
                        else Inr (output, ap)))))"

subsection \<open>Setters and the counter's reset\<close>











text \<open>A full-scale sample, of either sign.\<close>

definition full_scale :: "int16 \<Rightarrow> bool" where
  "full_scale s = (s = 32767 \<or> s = - 32767)"

text \<open>The processor's fields that the meter leaves alone.\<close>

definition same_settings :: "APRSProcessor \<Rightarrow> APRSProcessor \<Rightarrow> bool" where
  "same_settings ap ap' =
     (noiseGateThreshold ap' = noiseGateThreshold ap \<and>
      compressionRatio ap' = compressionRatio ap \<and>
      peakThreshold ap' = peakThreshold ap \<and>
      isNoiseGateEnabled ap' = isNoiseGateEnabled ap \<and>
      isCompressorEnabled ap' = isCompressorEnabled ap \<and>
      isLimiterEnabled ap' = isLimiterEnabled ap \<and>
      clippingCount ap' = clippingCount ap)"

section \<open>Stream endpoints\<close>

subsection \<open>Configuration, errors, the driver\<close>

text \<open>
  The fields of \<open>Config.Audio.Input\<close> and \<open>Config.Audio.Output\<close> that the endpoints
  read, under the prefixes \<open>Input_\<close> and \<open>Output_\<close>. Go's \<open>int\<close> is modelled by
  \<open>int\<close>: a buffer size is computed without the wrap-around at 64 bits and
  allocated without a limit of memory.
\<close>

record Config =
  Input_DeviceName :: string
  Input_SampleRate :: int
  Input_Channels :: int
  Input_BufferSize :: int
  Input_Gain :: float64
  Input_Format :: string
  Output_DeviceName :: string
  Output_SampleRate :: int
  Output_Channels :: int
  Output_BufferSize :: int
  Output_Volume :: float64
  Output_Format :: string

text \<open>
  The source's errors are messages built by \<open>fmt.Errorf\<close>; each constructor stands
  for one message, and a wrapped error (\<open>%w\<close>) carries the error it wraps.
\<close>

datatype error =
    AlreadyRunning
  | DefaultDeviceFailed
  | DeviceNotSupported string
  | NoDeviceContext
  | InitDeviceFailed
  | StartDeviceFailed
  | NotRunning
  | QueueFull
  | InvalidOperation
  | InvalidParameter
  | InputNotStarted
  | StartInputFailed error
  | StartOutputFailed error

text \<open>
  What the device catalogue and the audio library answer during one call of \<open>Start\<close>:
  the default device of a direction (if there is one), whether a device supports a
  configuration, whether the library context exists, and whether the library can
  create and start the device.
\<close>

record Driver =
  GetDefaultDevice :: "string \<Rightarrow> string option"
  IsDeviceSupported :: "string \<Rightarrow> string \<Rightarrow> int \<Rightarrow> int \<Rightarrow> string \<Rightarrow> bool"
  hasContext :: bool
  initDeviceOk :: bool
  deviceStartOk :: bool

text \<open>\<open>make([]byte, n)\<close>: \<open>n\<close> zero bytes, and a panic when \<open>n\<close> is negative.\<close>

definition make_bytes :: "int \<Rightarrow> panic + byte list" where
  "make_bytes n = (if n < 0 then Inl MakeSliceLenOutOfRange else Inr (replicate (nat n) 0))"

text \<open>
  A buffered channel: its capacity and the items it holds, oldest first. A send inside
  \<open>select\<close> with a \<open>default\<close> branch does not wait: it adds the item when there
  is room and takes the default branch otherwise (the only receiver, the playback
  callback, does not wait either).
\<close>

record 'a chan =
  chan_cap :: nat
  chan_items :: "'a list"

definition make_chan :: "nat \<Rightarrow> 'a chan" where
  "make_chan n = \<lparr> chan_cap = n, chan_items = [] \<rparr>"

definition try_send :: "'a \<Rightarrow> 'a chan \<Rightarrow> 'a chan option" where
  "try_send x ch =
     (if length (chan_items ch) < chan_cap ch
      then Some (ch\<lparr>chan_items := chan_items ch @ [x]\<rparr>)
      else None)"

subsection \<open>Capture: Input\<close>

text \<open>
  The lock, the cancellation context, the periodic task and the consumer callback are
  left out; \<open>device\<close> says whether the endpoint holds an open device.
\<close>

record Input =
  config :: Config
  device :: bool
  isRunning :: bool
  level :: float64
  gain :: float64
  buffer :: "byte list"

definition NewInput :: "Config \<Rightarrow> panic + Input" where
  "NewInput cfg =
     (case make_bytes (Input_BufferSize cfg * Input_Channels cfg * 2) of
        Inl p \<Rightarrow> Inl p
      | Inr buf \<Rightarrow>
          Inr \<lparr> Input.config = cfg, Input.device = False, Input.isRunning = False,
                Input.level = Fin 0, gain = Input_Gain cfg, Input.buffer = buf \<rparr>)"

definition Input_Start :: "Driver \<Rightarrow> Input \<Rightarrow> error option \<times> Input" where
  "Input_Start drv i =
     (if Input.isRunning i then (Some AlreadyRunning, i)
      else
        let cfg = Input.config i;
            deviceName = Input_DeviceName cfg;
            resolved = (if deviceName = [] then GetDefaultDevice drv ''input''
                        else Some deviceName)
        in case resolved of
             None \<Rightarrow> (Some DefaultDeviceFailed, i)
           | Some deviceName \<Rightarrow>
               if \<not> IsDeviceSupported drv deviceName ''input'' (Input_SampleRate cfg)
                      (Input_Channels cfg) (Input_Format cfg)
               then (Some (DeviceNotSupported deviceName), i)
               else if \<not> hasContext drv then (Some NoDeviceContext, i)
               else if \<not> initDeviceOk drv then (Some InitDeviceFailed, i)
               else if \<not> deviceStartOk drv then (Some StartDeviceFailed, i)
               else (None, i\<lparr>Input.device := True, Input.isRunning := True\<rparr>))"

definition Input_Stop :: "Input \<Rightarrow> error option \<times> Input" where
  "Input_Stop i =
     (if \<not> Input.isRunning i then (None, i)
      else (None, i\<lparr>Input.device := False, Input.isRunning := False\<rparr>))"

text \<open>\<open>if gain < 0.0 || gain > 2.0\<close> rejects; everything else is stored.\<close>

definition SetGain :: "float64 \<Rightarrow> Input \<Rightarrow> error option \<times> Input" where
  "SetGain g i =
     (if flt g (Fin 0) \<or> fgt g (Fin 2) then (Some InvalidParameter, i)
      else (None, i\<lparr>gain := g\<rparr>))"

definition GetGain :: "Input \<Rightarrow> float64" where
  "GetGain i = gain i"

definition Input_UpdateConfig :: "Config \<Rightarrow> Input \<Rightarrow> panic + error option \<times> Input" where
  "Input_UpdateConfig newConfig i =
     (if Input.isRunning i then Inr (Some InvalidOperation, i)
      else
        case make_bytes (Input_BufferSize newConfig * Input_Channels newConfig * 2) of
          Inl p \<Rightarrow> Inl p
        | Inr buf \<Rightarrow>
            Inr (None, i\<lparr>Input.config := newConfig, gain := Input_Gain newConfig,
                          Input.buffer := buf\<rparr>))"


subsection \<open>Playback: Output\<close>

record Output =
  config :: Config
  device :: bool
  isRunning :: bool
  level :: float64
  volume :: float64
  buffer :: "byte list"
  queue :: "byte list chan"

definition NewOutput :: "Config \<Rightarrow> panic + Output" where
  "NewOutput cfg =
     (case make_bytes (Output_BufferSize cfg * Output_Channels cfg * 2) of
        Inl p \<Rightarrow> Inl p
      | Inr buf \<Rightarrow>
          Inr \<lparr> Output.config = cfg, Output.device = False, Output.isRunning = False,
                Output.level = Fin 0, volume = Output_Volume cfg, Output.buffer = buf,
                queue = make_chan 10 \<rparr>)"

definition Output_Start :: "Driver \<Rightarrow> Output \<Rightarrow> error option \<times> Output" where
  "Output_Start drv out =
     (if Output.isRunning out then (Some AlreadyRunning, out)
      else
        let cfg = Output.config out;
            deviceName = Output_DeviceName cfg;
            resolved = (if deviceName = [] then GetDefaultDevice drv ''output''
                        else Some deviceName)
        in case resolved of
             None \<Rightarrow> (Some DefaultDeviceFailed, out)
           | Some deviceName \<Rightarrow>
               if \<not> IsDeviceSupported drv deviceName ''output'' (Output_SampleRate cfg)
                      (Output_Channels cfg) (Output_Format cfg)
               then (Some (DeviceNotSupported deviceName), out)
               else if \<not> hasContext drv then (Some NoDeviceContext, out)
               else if \<not> initDeviceOk drv then (Some InitDeviceFailed, out)
               else if \<not> deviceStartOk drv then (Some StartDeviceFailed, out)
               else (None, out\<lparr>Output.device := True, Output.isRunning := True\<rparr>))"

definition Output_Stop :: "Output \<Rightarrow> error option \<times> Output" where
  "Output_Stop out =
     (if \<not> Output.isRunning out then (None, out)
      else (None, out\<lparr>Output.device := False, Output.isRunning := False\<rparr>))"

definition PlayAudio :: "byte list \<Rightarrow> Output \<Rightarrow> error option \<times> Output" where
  "PlayAudio data out =
     (if \<not> Output.isRunning out then (Some NotRunning, out)
      else case try_send data (queue out) of
             Some q \<Rightarrow> (None, out\<lparr>queue := q\<rparr>)
           | None \<Rightarrow> (Some QueueFull, out))"

text \<open>A run of \<open>PlayAudio\<close> calls, one block each, whatever each call returns.\<close>

fun play_all :: "byte list list \<Rightarrow> Output \<Rightarrow> Output" where
  "play_all [] out = out"
| "play_all (data # rest) out = play_all rest (snd (PlayAudio data out))"

definition GetQueueSize :: "Output \<Rightarrow> int" where
  "GetQueueSize out = int (length (chan_items (queue out)))"

definition ClearQueue :: "Output \<Rightarrow> Output" where
  "ClearQueue out = out\<lparr>queue := (queue out)\<lparr>chan_items := []\<rparr>\<rparr>"

text \<open>\<open>if volume < 0.0 || volume > 1.0\<close> rejects; everything else is stored.\<close>

definition SetVolume :: "float64 \<Rightarrow> Output \<Rightarrow> error option \<times> Output" where
  "SetVolume v out =
     (if flt v (Fin 0) \<or> fgt v (Fin 1) then (Some InvalidParameter, out)
      else (None, out\<lparr>volume := v\<rparr>))"

definition GetVolume :: "Output \<Rightarrow> float64" where
  "GetVolume out = volume out"

definition Output_UpdateConfig :: "Config \<Rightarrow> Output \<Rightarrow> panic + error option \<times> Output" where
  "Output_UpdateConfig newConfig out =
     (if Output.isRunning out then Inr (Some InvalidOperation, out)
      else
        case make_bytes (Output_BufferSize newConfig * Output_Channels newConfig * 2) of
          Inl p \<Rightarrow> Inl p
        | Inr buf \<Rightarrow>
            Inr (None, out\<lparr>Output.config := newConfig, volume := Output_Volume newConfig,
                          Output.buffer := buf\<rparr>))"


section \<open>The stream manager\<close>

text \<open>
  The manager with the endpoints that \<open>NewManager\<close> builds by \<open>NewInput\<close> and
  \<open>NewOutput\<close>, once the device catalogue exists.
\<close>

record Manager =
  config :: Config
  input :: Input
  "output" :: Output
  aprsProcessor :: APRSProcessor
  isRunning :: bool

definition NewManager :: "Config \<Rightarrow> panic + Manager" where
  "NewManager cfg =
     (case NewInput cfg of
        Inl p \<Rightarrow> Inl p
      | Inr i \<Rightarrow>
          (case NewOutput cfg of
             Inl p \<Rightarrow> Inl p
           | Inr out \<Rightarrow>
               Inr \<lparr> Manager.config = cfg, input = i, output = out,
                     aprsProcessor = NewAPRSProcessor, Manager.isRunning = False \<rparr>))"

definition StartInput :: "Driver \<Rightarrow> Manager \<Rightarrow> error option \<times> Manager" where
  "StartInput drv m =
     (if Manager.isRunning m then (Some AlreadyRunning, m)
      else case Input_Start drv (input m) of
             (Some err, i) \<Rightarrow> (Some (StartInputFailed err), m\<lparr>input := i\<rparr>)
           | (None, i) \<Rightarrow> (None, m\<lparr>input := i, Manager.isRunning := True\<rparr>))"

definition StartOutput :: "Driver \<Rightarrow> Manager \<Rightarrow> error option \<times> Manager" where
  "StartOutput drv m =
     (if \<not> Manager.isRunning m then (Some InputNotStarted, m)
      else case Output_Start drv (output m) of
             (Some err, out) \<Rightarrow> (Some (StartOutputFailed err), m\<lparr>output := out\<rparr>)
           | (None, out) \<Rightarrow> (None, m\<lparr>output := out\<rparr>))"

text \<open>The endpoints' errors are logged, not returned.\<close>

definition Stop :: "Manager \<Rightarrow> error option \<times> Manager" where
  "Stop m =
     (if \<not> Manager.isRunning m then (None, m)
      else
        let (err_in, i) = Input_Stop (input m);
            (err_out, out) = Output_Stop (output m)
        in (None, m\<lparr>input := i, output := out, Manager.isRunning := False\<rparr>))"

text \<open>The lifecycle calls of a manager, and a run of them one after the other.\<close>

datatype manager_call = CallStartInput Driver | CallStartOutput Driver | CallStop

fun manager_step :: "manager_call \<Rightarrow> Manager \<Rightarrow> error option \<times> Manager" where
  "manager_step (CallStartInput drv) m = StartInput drv m"
| "manager_step (CallStartOutput drv) m = StartOutput drv m"
| "manager_step CallStop m = Stop m"

fun run_calls :: "manager_call list \<Rightarrow> Manager \<Rightarrow> Manager" where
  "run_calls [] m = m"
| "run_calls (c # cs) m = run_calls cs (snd (manager_step c m))"

text \<open>Whether some \<open>StartInput\<close> of the run returned without an error.\<close>

fun input_started :: "manager_call list \<Rightarrow> Manager \<Rightarrow> bool" where
  "input_started [] m = False"
| "input_started (CallStartInput drv # cs) m =
     (fst (StartInput drv m) = None \<or> input_started cs (snd (StartInput drv m)))"
| "input_started (c # cs) m = input_started cs (snd (manager_step c m))"

section \<open>Facts about bytes and samples\<close>

lemma ff_mask: "(0xFF :: int16) = mask 8"
  by (simp add: mask_eq_exp_minus_1)

text \<open>Writing a sample as two bytes and reading it back gives the sample.\<close>

lemma sample_of_bytes: "sample_of (lo_byte s) (hi_byte s) = s"
  unfolding sample_of_def lo_byte_def hi_byte_def ff_mask
  apply (rule bit_word_eqI)
  subgoal for n by (cases "n < 8") (auto simp add: bit_simps)
  done

lemma sample_of_zero: "sample_of 0 0 = 0"
  by (simp add: sample_of_def)

lemma sint_int16_bounds: "- 32768 \<le> sint (s :: int16)" "sint (s :: int16) \<le> 32767"
  using sint_ge [of s] sint_lt [of s] by simp_all

lemma sample_count_pos:
  assumes "data \<noteq> []" "even (length data)"
  shows "0 < int (length data) div 2"
proof -
  from assms(2) obtain k where k: "length data = 2 * k" by (auto elim: evenE)
  with assms(1) have "0 < k" by (cases k) auto
  with k show ?thesis by simp
qed

lemma sample_count_real:
  "real_of_int (int (length data) div 2) = real (length data div 2)"
proof -
  have "int (length data) div 2 = int (length data div 2)" by simp
  then show ?thesis by (simp only: of_int_of_nat_eq)
qed

section \<open>The level meters\<close>

lemma full_scale_square: "full_scale s \<Longrightarrow> float_of_int16 (s * s) = Fin 1"
  by (auto simp: full_scale_def float_of_int16_def)

lemma full_scale_abs: "full_scale s \<Longrightarrow> fabs (float_of_int16 s) = Fin 32767"
  by (auto simp: full_scale_def float_of_int16_def)

lemma Input_calculateLevel_loop_silence:
  "even (length data) \<Longrightarrow> \<forall>s \<in> set (samples data). s = 0 \<Longrightarrow>
   Input_calculateLevel_loop (Fin a) data = Inr (Fin a)"
  by (induction data arbitrary: a rule: samples.induct)
     (auto simp: float_of_int16_def Let_def)

lemma Input_calculateLevel_loop_full_scale:
  "even (length data) \<Longrightarrow> \<forall>s \<in> set (samples data). full_scale s \<Longrightarrow>
   Input_calculateLevel_loop (Fin a) data = Inr (Fin (a + real (length data div 2)))"
  by (induction data arbitrary: a rule: samples.induct)
     (simp_all add: Let_def full_scale_square add.assoc)

lemma calculateLevels_loop_silence:
  "even (length data) \<Longrightarrow> \<forall>s \<in> set (samples data). s = 0 \<Longrightarrow>
   calculateLevels_loop (Fin a) (Fin 0) data = Inr (Fin a, Fin 0)"
  by (induction data arbitrary: a rule: samples.induct)
     (auto simp: float_of_int16_def Let_def fgt_def)

lemma calculateLevels_loop_full_scale:
  "even (length data) \<Longrightarrow> \<forall>s \<in> set (samples data). full_scale s \<Longrightarrow>
   p = 0 \<or> p = 32767 \<Longrightarrow>
   calculateLevels_loop (Fin a) (Fin p) data =
     Inr (Fin (a + real (length data div 2) * (32767 * 32767)),
          Fin (if data = [] then p else 32767))"
proof (induction data arbitrary: a p rule: samples.induct)
  case (1 lo hi rest)
  have rest: "even (length rest)" "\<forall>s \<in> set (samples rest). full_scale s"
    and fs: "fabs (float_of_int16 (sample_of lo hi)) = Fin 32767"
    using 1 by (simp_all add: full_scale_abs)
  have step: "calculateLevels_loop (Fin (a + 32767 * 32767)) (Fin 32767) rest =
     Inr (Fin (a + 32767 * 32767 + real (length rest div 2) * (32767 * 32767)),
          Fin (if rest = [] then 32767 else 32767))"
    by (rule 1(1)[OF rest]) simp
  show ?case
    using step 1(4) by (auto simp add: fs Let_def fgt_def algebra_simps)
qed simp_all

text \<open>
  Silence: on a non-empty block of whole samples that are all zero, both meters give
  the floor of -96 dB.
\<close>

lemma Input_calculateLevel_silence:
  assumes "data \<noteq> []" "even (length data)" "\<forall>s \<in> set (samples data). s = 0"
  shows "Input_calculateLevel data = Inr (Fin (- 96))"
  using assms sample_count_pos[OF assms(1,2)]
  by (simp add: Input_calculateLevel_def Input_calculateLevel_loop_silence
        float_of_int_def fgt_def Let_def)

lemma calculateLevels_silence:
  assumes "data \<noteq> []" "even (length data)" "\<forall>s \<in> set (samples data). s = 0"
  shows "calculateLevels ap data = Inr (ap\<lparr>rmsLevel := Fin (- 96), peakLevel := Fin (- 96)\<rparr>)"
  using assms sample_count_pos[OF assms(1,2)]
  by (simp add: calculateLevels_def calculateLevels_loop_silence float_of_int_def
        fgt_def Let_def)

text \<open>
  Full scale: on a non-empty block of samples that are all +32767 or -32767, the
  processor meter gives 0 dB for the RMS level and for the peak.
\<close>

lemma calculateLevels_full_scale:
  assumes "data \<noteq> []" "even (length data)" "\<forall>s \<in> set (samples data). full_scale s"
  shows "calculateLevels ap data = Inr (ap\<lparr>rmsLevel := Fin 0, peakLevel := Fin 0\<rparr>)"
proof -
  have n: "0 < real (length data div 2)"
    using sample_count_pos[OF assms(1,2)] by simp
  have loop: "calculateLevels_loop (Fin 0) (Fin 0) data =
      Inr (Fin (real (length data div 2) * (32767 * 32767)), Fin 32767)"
    using calculateLevels_loop_full_scale[OF assms(2,3), of 0 0] assms(1) by simp
  have rt: "sqrt 1073676289 = (32767::real)"
    by (rule real_sqrt_unique) simp_all
  have rms: "fsqrt (fdiv (Fin (real (length data div 2) * 1073676289))
                (float_of_int (int (length data) div 2))) = Fin 32767"
    using n by (simp add: float_of_int_def sample_count_real rt)
  show ?thesis
    using assms(1) by (simp add: calculateLevels_def loop rms fgt_def)
qed

text \<open>
  The endpoint meter on the same blocks: each 16-bit square \<open>sample * sample\<close> is 1,
  so the RMS is 1 and the level is that of the smallest non-zero sample.
\<close>

lemma Input_calculateLevel_full_scale:
  assumes "data \<noteq> []" "even (length data)" "\<forall>s \<in> set (samples data). full_scale s"
  shows "Input_calculateLevel data = Inr (Fin (20 * log 10 (1 / 32767)))"
proof -
  have n: "0 < real (length data div 2)"
    using sample_count_pos[OF assms(1,2)] by simp
  have loop: "Input_calculateLevel_loop (Fin 0) data = Inr (Fin (real (length data div 2)))"
    using Input_calculateLevel_loop_full_scale[OF assms(2,3), of 0] by simp
  have rms: "fsqrt (fdiv (Fin (real (length data div 2)))
                (float_of_int (int (length data) div 2))) = Fin 1"
    using n by (simp add: float_of_int_def sample_count_real)
  show ?thesis
    using assms(1) by (simp add: Input_calculateLevel_def loop rms fgt_def)
qed

lemma level_of_unit_rms: "20 * log 10 (1 / 32767) < (- 90 :: real)"
proof -
  have "(9::real) = log 10 (10 ^ 9)"
    by (subst log_nat_power) simp_all
  also have "\<dots> < log 10 ((32767::real) ^ 2)"
    by (subst log_less_cancel_iff) simp_all
  also have "\<dots> = 2 * log 10 32767"
    by (subst log_nat_power) simp_all
  finally have "(9::real) < 2 * log 10 32767" .
  moreover have "log 10 (1 / 32767) = - log 10 (32767::real)"
    by (simp add: log_divide)
  ultimately show ?thesis by linarith
qed

text \<open>
  Claim C1. An all-zero block gives -96 dB and a block of alternating +32767 and -32767
  gives 0 dB, for the endpoint meter and for the processor meter. The first half holds
  for both (\<open>Input_calculateLevel_silence\<close>, \<open>calculateLevels_silence\<close>) and the
  second for the processor meter (\<open>calculateLevels_full_scale\<close>). The endpoint meter
  does not give 0 dB: on the block of the two samples +32767 and -32767 (bytes FF 7F 01
  80) it gives \<open>20 * log10 (1 / 32767)\<close>, which is below -90 dB, where the processor
  meter gives 0 dB on the same block.
\<close>

theorem C1_endpoint_meter_full_scale:
  "samples [0xFF, 0x7F, 0x01, 0x80] = [32767, - 32767] \<and>
   Input_calculateLevel [0xFF, 0x7F, 0x01, 0x80] = Inr (Fin (20 * log 10 (1 / 32767))) \<and>
   20 * log 10 (1 / 32767) < (- 90 :: real) \<and>
   calculateLevels ap [0xFF, 0x7F, 0x01, 0x80] = Inr (ap\<lparr>rmsLevel := Fin 0, peakLevel := Fin 0\<rparr>)"
proof -
  have s: "samples [0xFF, 0x7F, 0x01, 0x80] = [32767, - 32767]"
    by (simp add: sample_of_def)
  have fs: "\<forall>s \<in> set (samples [0xFF, 0x7F, 0x01, 0x80]). full_scale s"
    unfolding s by (simp add: full_scale_def)
  show ?thesis
    using s Input_calculateLevel_full_scale[OF _ _ fs] calculateLevels_full_scale[OF _ _ fs]
      level_of_unit_rms
    by simp
qed

section \<open>The stages, sample by sample\<close>


lemma magnitude_Fin: "magnitude s = Fin \<bar>real_of_int (sint s)\<bar>"
  by (simp add: magnitude_def float_of_int16_def)

lemma sint_word_of_int16:
  "- 32768 \<le> n \<Longrightarrow> n \<le> 32767 \<Longrightarrow> sint (word_of_int n :: int16) = n"
proof -
  assume "- 32768 \<le> n" "n \<le> 32767"
  then have "(n + 32768) mod 65536 = n + 32768" by simp
  then show ?thesis by (simp add: int_word_sint)
qed

lemma applyNoiseGate_loop_even:
  "even (length data) \<Longrightarrow>
   \<exists>out. applyNoiseGate_loop thr data = Inr out \<and> length out = length data \<and>
     samples out = map (\<lambda>s. if flt (magnitude s) thr then 0 else s) (samples data)"
  by (induction data rule: samples.induct)
     (auto simp: Let_def magnitude_def sample_of_zero)


lemma applyCompressor_loop_even:
  "even (length data) \<Longrightarrow>
   \<exists>out. applyCompressor_loop thr ratio data = Inr out \<and> length out = length data \<and>
     samples out = map (\<lambda>s. if fgt (magnitude s) thr then compress_sample thr ratio s else s)
                     (samples data)"
  by (induction data rule: samples.induct)
     (auto simp: Let_def magnitude_def sample_of_bytes)

lemma applyLimiter_loop_even:
  "even (length data) \<Longrightarrow>
   \<exists>out. applyLimiter_loop thr c data =
           Inr (out, c + int (length (filter (\<lambda>s. fgt (magnitude s) thr) (samples data)))) \<and>
     length out = length data \<and>
     samples out = map (\<lambda>s. if fgt (magnitude s) thr then clip_sample thr s else s)
                     (samples data)"
proof (induction data arbitrary: c rule: samples.induct)
  case (1 lo hi rest)
  then have ev: "even (length rest)" by simp
  show ?case
  proof (cases "fgt (magnitude (sample_of lo hi)) thr")
    case True
    from 1(1)[OF ev, of "c + 1"] True show ?thesis
      by (auto simp: Let_def magnitude_def sample_of_bytes)
  next
    case False
    from 1(1)[OF ev, of c] False show ?thesis
      by (auto simp: Let_def magnitude_def)
  qed
qed simp_all

lemma stage_odd_length:
  "odd (length data) \<Longrightarrow> applyNoiseGate_loop thr data = Inl IndexOutOfRange"
  "odd (length data) \<Longrightarrow> applyCompressor_loop thr ratio data = Inl IndexOutOfRange"
  "odd (length data) \<Longrightarrow> applyLimiter_loop thr c data = Inl IndexOutOfRange"
    apply (induction data rule: samples.induct; simp add: Let_def)
   apply (induction data rule: samples.induct; simp add: Let_def)
  apply (induction data arbitrary: c rule: samples.induct; simp add: Let_def)
  done




lemma knee_value: "linear_of_db (Fin (- 20)) = Fin (32767 / 10)"
proof -
  have "(10::real) powr (- 1) = 1 / 10"
    by (simp add: powr_minus_divide)
  then show ?thesis by (simp add: linear_of_db_def)
qed

lemma sint_neg_word_of_int16:
  assumes "0 \<le> n" "n \<le> 32767"
  shows "sint (- (word_of_int n :: int16)) = - n"
proof -
  have "- (word_of_int n :: int16) = word_of_int (- n)" by simp
  then show ?thesis using assms by (simp only: sint_word_of_int16)
qed

lemma int16_of_float_pos:
  assumes "0 < m" "m \<le> 32767"
  shows "sint (int16_of_float (Fin m)) = \<lfloor>m\<rfloor>"
proof -
  have "0 \<le> \<lfloor>m\<rfloor>" "\<lfloor>m\<rfloor> \<le> 32767"
    using assms by (simp_all add: le_floor_iff floor_le_iff)
  then show ?thesis
    using assms by (simp add: trunc_real_def sint_word_of_int16)
qed

lemma int16_of_float_neg:
  assumes "0 < m" "m \<le> 32767"
  shows "sint (int16_of_float (Fin (- m))) = - \<lfloor>m\<rfloor>"
proof -
  have "0 \<le> \<lfloor>m\<rfloor>" "\<lfloor>m\<rfloor> \<le> 32767"
    using assms by (simp_all add: le_floor_iff floor_le_iff)
  moreover have "\<lceil>- m\<rceil> = - \<lfloor>m\<rfloor>" by (simp add: ceiling_def)
  ultimately show ?thesis
    using assms by (simp add: trunc_real_def sint_neg_word_of_int16)
qed

lemma compress_sample_ratio4:
  assumes "fgt (magnitude s) (Fin (32767 / 10))"
  shows "sint (compress_sample (Fin (32767 / 10)) (Fin 4) s) =
           (if sint s < 0 then - \<lfloor>32767 / 10 + (\<bar>real_of_int (sint s)\<bar> - 32767 / 10) / 4\<rfloor>
            else \<lfloor>32767 / 10 + (\<bar>real_of_int (sint s)\<bar> - 32767 / 10) / 4\<rfloor>)"
proof -
  define a where "a = \<bar>real_of_int (sint s)\<bar>"
  define m where "m = 32767 / 10 + (a - 32767 / 10) / 4"
  have a1: "32767 / 10 < a" using assms by (simp add: fgt_def magnitude_Fin a_def)
  have a2: "a \<le> 32768"
  proof -
    have "\<bar>sint s\<bar> \<le> 32768" using sint_int16_bounds[of s] by linarith
    then have "real_of_int \<bar>sint s\<bar> \<le> real_of_int 32768" by (rule of_int_le_iff[THEN iffD2])
    then show ?thesis by (simp add: a_def)
  qed
  have m1: "0 < m" using a1 a2 unfolding m_def by argo
  have m2: "m \<le> 32767" using a1 a2 unfolding m_def by argo
  have ab: "fabs (float_of_int16 s) = Fin a"
    by (simp add: float_of_int16_def a_def)
  have ns: "fadd (Fin (32767 / 10)) (fdiv (fsub (Fin a) (Fin (32767 / 10))) (Fin 4)) = Fin m"
    by (simp add: fsub_def m_def)
  have cp: "(if fgt (Fin m) (Fin 32767) then Fin 32767
             else if flt (Fin m) (Fin (- 32768)) then Fin (- 32768) else Fin m) = Fin m"
    using m1 m2 by (simp add: fgt_def)
  have cn: "(if fgt (Fin (- m)) (Fin 32767) then Fin 32767
             else if flt (Fin (- m)) (Fin (- 32768)) then Fin (- 32768) else Fin (- m)) = Fin (- m)"
    using m1 m2 by (simp add: fgt_def)
  have "sint (compress_sample (Fin (32767 / 10)) (Fin 4) s) = (if sint s < 0 then - \<lfloor>m\<rfloor> else \<lfloor>m\<rfloor>)"
  proof (cases "sint s < 0")
    case True
    then have "compress_sample (Fin (32767 / 10)) (Fin 4) s = int16_of_float (Fin (- m))"
      unfolding compress_sample_def Let_def ab ns by (simp only: if_True fneg.simps cn)
    then show ?thesis using True int16_of_float_neg[OF m1 m2] by simp
  next
    case False
    then have "compress_sample (Fin (32767 / 10)) (Fin 4) s = int16_of_float (Fin m)"
      unfolding compress_sample_def Let_def ab ns by (simp only: if_False cp)
    then show ?thesis using False int16_of_float_pos[OF m1 m2] by simp
  qed
  then show ?thesis unfolding m_def a_def .
qed

section \<open>ProcessAudio as a whole\<close>

lemma calculateLevels_loop_even:
  "even (length data) \<Longrightarrow>
   \<exists>a p. calculateLevels_loop (Fin x) (Fin y) data = Inr (Fin a, Fin p)"
  by (induction data arbitrary: x y rule: samples.induct)
     (auto simp: Let_def float_of_int16_def)


lemma calculateLevels_even:
  assumes "even (length data)"
  shows "\<exists>ap'. calculateLevels ap data = Inr ap' \<and> same_settings ap ap'"
proof (cases "data = []")
  case True
  then show ?thesis by (simp add: calculateLevels_def same_settings_def)
next
  case False
  from calculateLevels_loop_even[OF assms, of 0 0]
  obtain a p where "calculateLevels_loop (Fin 0) (Fin 0) data = Inr (Fin a, Fin p)" by blast
  with False show ?thesis
    by (simp add: calculateLevels_def Let_def same_settings_def)
qed



lemma stages_same_settings:
  assumes "same_settings ap ap1"
  shows "applyNoiseGate ap1 data = applyNoiseGate ap data"
    and "applyCompressor ap1 data = applyCompressor ap data"
  using assms by (simp_all add: same_settings_def applyNoiseGate_def applyCompressor_def)

text \<open>
  \<open>ProcessAudio\<close> stage by stage, on a block of whole samples: the meter returns a
  processor with the same settings, the gate (if enabled) returns \<open>g\<close>, the compressor
  (if enabled) returns \<open>pre\<close> from \<open>g\<close>, and the result is that of the limiter on
  \<open>pre\<close>, or \<open>pre\<close> itself.
\<close>

lemma ProcessAudio_stages:
  assumes "even (length data)"
  shows "\<exists>ap1 g pre.
           calculateLevels ap data = Inr ap1 \<and> same_settings ap ap1 \<and>
           (if isNoiseGateEnabled ap then applyNoiseGate ap data else Inr data) = Inr g \<and>
           length g = length data \<and>
           (if isCompressorEnabled ap then applyCompressor ap g else Inr g) = Inr pre \<and>
           length pre = length data \<and>
           ProcessAudio ap data sampleRate channels =
             (if isLimiterEnabled ap then applyLimiter ap1 pre else Inr (pre, ap1))"
proof -
  from calculateLevels_even[OF assms, of ap]
  obtain ap1 where ap1: "calculateLevels ap data = Inr ap1" "same_settings ap ap1" by blast
  have "\<exists>g. (if isNoiseGateEnabled ap then applyNoiseGate ap data else Inr data) = Inr g \<and>
      length g = length data"
    using applyNoiseGate_loop_even[OF assms, of "linear_of_db (noiseGateThreshold ap)"]
    by (cases "isNoiseGateEnabled ap") (auto simp: applyNoiseGate_def)
  then obtain g where g: "(if isNoiseGateEnabled ap then applyNoiseGate ap data else Inr data) = Inr g"
      "length g = length data" by blast
  then have evg: "even (length g)" using assms by simp
  have "\<exists>c. (if isCompressorEnabled ap then applyCompressor ap g else Inr g) = Inr c \<and>
      length c = length g"
    using applyCompressor_loop_even[OF evg, of "linear_of_db (Fin (- 20))" "compressionRatio ap"]
    by (cases "isCompressorEnabled ap") (auto simp: applyCompressor_def)
  then obtain c where c: "(if isCompressorEnabled ap then applyCompressor ap g else Inr g) = Inr c"
      "length c = length g" by blast
  have en: "isNoiseGateEnabled ap1 = isNoiseGateEnabled ap"
    "isCompressorEnabled ap1 = isCompressorEnabled ap"
    "isLimiterEnabled ap1 = isLimiterEnabled ap"
    using ap1(2) by (simp_all add: same_settings_def)
  have g1: "(if isNoiseGateEnabled ap1 then applyNoiseGate ap1 data else Inr data) = Inr g"
    using g(1) by (simp only: en stages_same_settings[OF ap1(2)])
  have c1: "(if isCompressorEnabled ap1 then applyCompressor ap1 g else Inr g) = Inr c"
    using c(1) by (simp only: en stages_same_settings[OF ap1(2)])
  have "ProcessAudio ap data sampleRate channels =
          (if isLimiterEnabled ap1 then applyLimiter ap1 c else Inr (c, ap1))"
    by (simp add: ProcessAudio_def ap1(1) g1 c1)
  then have "ProcessAudio ap data sampleRate channels =
          (if isLimiterEnabled ap then applyLimiter ap1 c else Inr (c, ap1))"
    by (simp only: en)
  with ap1 g c show ?thesis by auto
qed


lemma applyLimiter_even:
  assumes "even (length data)"
  shows "\<exists>out. applyLimiter ap data =
            Inr (out, ap\<lparr>clippingCount := clippingCount ap +
                   int (length (filter (\<lambda>s. fgt (magnitude s) (linear_of_db (peakThreshold ap)))
                                  (samples data)))\<rparr>) \<and>
           length out = length data \<and>
           samples out = map (\<lambda>s. if fgt (magnitude s) (linear_of_db (peakThreshold ap))
                                   then clip_sample (linear_of_db (peakThreshold ap)) s else s)
                           (samples data)"
  using applyLimiter_loop_even[OF assms, of "linear_of_db (peakThreshold ap)" "clippingCount ap"]
  by (auto simp: applyLimiter_def)


lemma ProcessAudio_empty:
  "ProcessAudio ap [] sampleRate channels =
     Inr ([], ap\<lparr>peakLevel := Fin (- 96), rmsLevel := Fin (- 96)\<rparr>)"
  by (simp add: ProcessAudio_def calculateLevels_def applyNoiseGate_def applyCompressor_def
        applyLimiter_def)

lemma ProcessAudio_total:
  assumes ev: "even (length data)"
  shows "\<exists>out ap'. ProcessAudio ap data sampleRate channels = Inr (out, ap') \<and>
                 length out = length data"
proof -
  from ProcessAudio_stages[OF ev, of ap sampleRate channels]
  obtain ap1 pre where p: "length pre = length data"
    "ProcessAudio ap data sampleRate channels =
       (if isLimiterEnabled ap then applyLimiter ap1 pre else Inr (pre, ap1))"
    by blast
  from p(1) ev have "even (length pre)" by simp
  from applyLimiter_even[OF this, of ap1] p
  show "\<exists>out ap'. ProcessAudio ap data sampleRate channels = Inr (out, ap') \<and>
                 length out = length data"
    by (cases "isLimiterEnabled ap") auto
qed

section \<open>The noise gate\<close>











section \<open>The shape of the output\<close>

text \<open>
  Claim C5, as the code has it. On every block of even byte length, that is of whole
  16-bit samples, \<open>ProcessAudio\<close> returns, without a panic, a block of the length of
  the input; on the empty block it returns the empty block, sets the stored RMS and
  peak levels to -96 and changes nothing else of the processor.
\<close>

theorem C5_ProcessAudio_shape:
  "(even (length data) \<longrightarrow>
      (\<exists>out ap'. ProcessAudio ap data sampleRate channels = Inr (out, ap') \<and>
                 length out = length data)) \<and>
   ProcessAudio ap [] sampleRate channels =
     Inr ([], ap\<lparr>peakLevel := Fin (- 96), rmsLevel := Fin (- 96)\<rparr>)"
  using ProcessAudio_total[of data ap sampleRate channels]
    ProcessAudio_empty[of ap sampleRate channels]
  by blast

theorem C5_ProcessAudio_shape_witness:
  "even (length [0x10 :: byte, 0x27]) \<and>
   (\<exists>out ap'. ProcessAudio NewAPRSProcessor [0x10, 0x27] 48000 1 = Inr (out, ap') \<and>
              length out = 2)"
  using C5_ProcessAudio_shape[of "[0x10, 0x27]" NewAPRSProcessor 48000 1] by auto

text \<open>
  Claim C5 as it is stated speaks of every input block. The input is a byte slice, and
  on a slice of odd length the first loop reads \<open>data[j+1]\<close> one past the end: the
  call panics and returns no block.
\<close>

theorem C5_odd_block_panics:
  "ProcessAudio NewAPRSProcessor [0x01] 48000 1 = Inl IndexOutOfRange"
  by (simp add: ProcessAudio_def calculateLevels_def)


section \<open>The limiter\<close>








section \<open>The compressor\<close>

lemma applyCompressor_returns:
  "applyCompressor ap data = Inr out \<Longrightarrow> even (length data)"
  using stage_odd_length(2)[of data "linear_of_db (Fin (- 20))" "compressionRatio ap"]
  by (cases "even (length data)") (auto simp: applyCompressor_def)

lemma magnitude_le_knee:
  "(\<not> fgt (magnitude s) (Fin x)) = (\<bar>real_of_int (sint s)\<bar> \<le> x)"
  by (simp add: fgt_def magnitude_Fin not_less)

lemma compress_sample_ratio4_props:
  fixes s :: int16
  defines "a \<equiv> \<bar>real_of_int (sint s)\<bar>"
  defines "t \<equiv> compress_sample (Fin (32767 / 10)) (Fin 4) s"
  assumes above: "32767 / 10 < a"
  shows "\<bar>real_of_int (sint t)\<bar> = real_of_int \<lfloor>32767 / 10 + (a - 32767 / 10) / 4\<rfloor>"
    and "(sint t < 0) = (sint s < 0)"
proof -
  define m where "m = 32767 / 10 + (a - 32767 / 10) / 4"
  have fg: "fgt (magnitude s) (Fin (32767 / 10))"
    using above by (simp add: fgt_def magnitude_Fin a_def)
  have st: "sint t = (if sint s < 0 then - \<lfloor>m\<rfloor> else \<lfloor>m\<rfloor>)"
    unfolding t_def m_def a_def by (rule compress_sample_ratio4[OF fg])
  have "1 \<le> m" using above unfolding m_def by argo
  then have fl: "1 \<le> \<lfloor>m\<rfloor>" by (simp add: le_floor_iff)
  show "\<bar>real_of_int (sint t)\<bar> = real_of_int \<lfloor>32767 / 10 + (a - 32767 / 10) / 4\<rfloor>"
    using st fl unfolding m_def[symmetric] by (auto simp: abs_if)
  show "(sint t < 0) = (sint s < 0)"
    using st fl by auto
qed

lemma near_twice_knee:
  fixes n :: int
  assumes "\<bar>real_of_int \<bar>n\<bar> - 2 * (32767 / 10)\<bar> < 1"
  shows "\<bar>n\<bar> = 6553 \<or> \<bar>n\<bar> = 6554"
proof -
  have r: "6552 < x \<and> x < 6555" if "\<bar>x - 2 * (32767 / 10)\<bar> < 1" for x :: real
    using that by argo
  from r[OF assms] have "real_of_int 6552 < real_of_int \<bar>n\<bar>"
    and "real_of_int \<bar>n\<bar> < real_of_int 6555"
    by simp_all
  then have "6552 < \<bar>n\<bar>" "\<bar>n\<bar> < 6555" by (simp_all only: of_int_less_iff)
  then show ?thesis by linarith
qed

lemma compress_sample_twice_knee:
  fixes s :: int16
  defines "a \<equiv> \<bar>real_of_int (sint s)\<bar>"
  defines "t \<equiv> compress_sample (Fin (32767 / 10)) (Fin 4) s"
  assumes near: "\<bar>a - 2 * (32767 / 10)\<bar> < 1"
  shows "\<bar>\<bar>real_of_int (sint t)\<bar> - (32767 / 10 + (32767 / 10) / 4)\<bar> < 1"
    and "fgt (magnitude s) (Fin (32767 / 10))"
proof -
  have a_int: "a = real_of_int \<bar>sint s\<bar>" by (simp add: a_def)
  from near have "\<bar>sint s\<bar> = 6553 \<or> \<bar>sint s\<bar> = 6554"
    unfolding a_int by (rule near_twice_knee)
  then have "real_of_int \<bar>sint s\<bar> = real_of_int 6553 \<or> real_of_int \<bar>sint s\<bar> = real_of_int 6554"
    by (simp only: of_int_eq_iff)
  then have av: "a = 6553 \<or> a = 6554" unfolding a_int by simp
  then have above: "32767 / 10 < a" by auto
  then show "fgt (magnitude s) (Fin (32767 / 10))"
    by (simp add: fgt_def magnitude_Fin a_def)
  from compress_sample_ratio4_props(1)[of s] above
  have "\<bar>real_of_int (sint t)\<bar> = real_of_int \<lfloor>32767 / 10 + (a - 32767 / 10) / 4\<rfloor>"
    by (simp add: a_def t_def)
  moreover have "\<lfloor>32767 / 10 + ((6553::real) - 32767 / 10) / 4\<rfloor> = 4095"
    by (simp add: floor_eq_iff)
  moreover have "\<lfloor>32767 / 10 + ((6554::real) - 32767 / 10) / 4\<rfloor> = 4096"
    by (simp add: floor_eq_iff)
  ultimately have "\<bar>real_of_int (sint t)\<bar> = 4095 \<or> \<bar>real_of_int (sint t)\<bar> = 4096"
    using av by auto
  then show "\<bar>\<bar>real_of_int (sint t)\<bar> - (32767 / 10 + (32767 / 10) / 4)\<bar> < 1"
    by auto
qed


text \<open>
  Claim C3. The compressor's knee is \<open>10^(-20/20) * 32767 = 3276.7\<close>.
  \<open>applyCompressor\<close> returns on every block of whole samples, and whenever it
  returns, the block has the length of the input and each sample is rewritten on its
  own: a sample whose magnitude is at or below the knee is unchanged, whatever the
  ratio. With ratio 4, a sample of magnitude \<open>a\<close> above the knee comes out with the
  magnitude \<open>knee + (a - knee) / 4\<close> rounded down to an integer and with the sign of
  the input; so a sample whose magnitude is within 1 of twice the knee (twice the knee
  is 6553.4, no sample has exactly that magnitude) comes out with a magnitude within 1
  of \<open>knee + knee / 4\<close>, sign kept.
\<close>

theorem C3_compressor:
  fixes ap :: APRSProcessor and data :: "byte list"
  defines "knee \<equiv> (32767 / 10 :: real)"
  defines "out_sample \<equiv> \<lambda>s. if fgt (magnitude s) (Fin knee)
                              then compress_sample (Fin knee) (compressionRatio ap) s else s"
  shows "linear_of_db (Fin (- 20)) = Fin knee \<and>
         (even (length data) \<longrightarrow> (\<exists>out. applyCompressor ap data = Inr out)) \<and>
         (\<forall>out. applyCompressor ap data = Inr out \<longrightarrow>
            length out = length data \<and> samples out = map out_sample (samples data)) \<and>
         (\<forall>s. \<bar>real_of_int (sint s)\<bar> \<le> knee \<longrightarrow> out_sample s = s) \<and>
         (\<forall>s. compressionRatio ap = Fin 4 \<and> knee < \<bar>real_of_int (sint s)\<bar> \<longrightarrow>
            \<bar>real_of_int (sint (out_sample s))\<bar> =
              real_of_int \<lfloor>knee + (\<bar>real_of_int (sint s)\<bar> - knee) / 4\<rfloor> \<and>
            (sint (out_sample s) < 0) = (sint s < 0)) \<and>
         (\<forall>s. compressionRatio ap = Fin 4 \<and> \<bar>\<bar>real_of_int (sint s)\<bar> - 2 * knee\<bar> < 1 \<longrightarrow>
            \<bar>\<bar>real_of_int (sint (out_sample s))\<bar> - (knee + knee / 4)\<bar> < 1 \<and>
            (sint (out_sample s) < 0) = (sint s < 0))"
proof (intro conjI allI impI)
  show "linear_of_db (Fin (- 20)) = Fin knee"
    unfolding knee_def by (rule knee_value)
next
  assume "even (length data)"
  from applyCompressor_loop_even[OF this, of "linear_of_db (Fin (- 20))" "compressionRatio ap"]
  show "\<exists>out. applyCompressor ap data = Inr out"
    by (auto simp: applyCompressor_def)
next
  fix out assume r: "applyCompressor ap data = Inr out"
  from applyCompressor_loop_even[OF applyCompressor_returns[OF r],
         of "linear_of_db (Fin (- 20))" "compressionRatio ap"] r
  show "length out = length data" and "samples out = map out_sample (samples data)"
    by (auto simp: applyCompressor_def knee_value out_sample_def knee_def)
next
  fix s :: int16 assume "\<bar>real_of_int (sint s)\<bar> \<le> knee"
  then have "\<not> fgt (magnitude s) (Fin knee)"
    by (simp only: magnitude_le_knee)
  then show "out_sample s = s"
    by (simp add: out_sample_def)
next
  fix s :: int16
  assume h: "compressionRatio ap = Fin 4 \<and> knee < \<bar>real_of_int (sint s)\<bar>"
  then have o: "out_sample s = compress_sample (Fin (32767 / 10)) (Fin 4) s"
    by (simp add: out_sample_def knee_def fgt_def magnitude_Fin)
  from h have ab: "32767 / 10 < \<bar>real_of_int (sint s)\<bar>" by (simp add: knee_def)
  show "\<bar>real_of_int (sint (out_sample s))\<bar> =
          real_of_int \<lfloor>knee + (\<bar>real_of_int (sint s)\<bar> - knee) / 4\<rfloor>"
    unfolding o knee_def by (rule compress_sample_ratio4_props(1)[OF ab])
  show "(sint (out_sample s) < 0) = (sint s < 0)"
    unfolding o by (rule compress_sample_ratio4_props(2)[OF ab])
next
  fix s :: int16
  assume h: "compressionRatio ap = Fin 4 \<and> \<bar>\<bar>real_of_int (sint s)\<bar> - 2 * knee\<bar> < 1"
  then have near: "\<bar>\<bar>real_of_int (sint s)\<bar> - 2 * (32767 / 10)\<bar> < 1" by (simp add: knee_def)
  from compress_sample_twice_knee(2)[OF near] h
  have o: "out_sample s = compress_sample (Fin (32767 / 10)) (Fin 4) s"
    by (simp add: out_sample_def knee_def)
  have ab: "32767 / 10 < \<bar>real_of_int (sint s)\<bar>"
    using compress_sample_twice_knee(2)[OF near] by (simp add: fgt_def magnitude_Fin)
  show "\<bar>\<bar>real_of_int (sint (out_sample s))\<bar> - (knee + knee / 4)\<bar> < 1"
    unfolding o knee_def by (rule compress_sample_twice_knee(1)[OF near])
  show "(sint (out_sample s) < 0) = (sint s < 0)"
    unfolding o by (rule compress_sample_ratio4_props(2)[OF ab])
qed


theorem C3_compressor_witness:
  "even (length [0x99 :: byte, 0x19, 0x66, 0xE6, 0x64, 0x00]) \<and>
   samples [0x99, 0x19, 0x66, 0xE6, 0x64, 0x00] = [6553, - 6554, 100] \<and>
   compressionRatio NewAPRSProcessor = Fin 4 \<and>
   \<bar>\<bar>real_of_int (sint (6553 :: int16))\<bar> - 2 * (32767 / 10)\<bar> < 1 \<and>
   \<bar>\<bar>real_of_int (sint (- 6554 :: int16))\<bar> - 2 * (32767 / 10)\<bar> < 1 \<and>
   \<bar>real_of_int (sint (100 :: int16))\<bar> \<le> 32767 / 10 \<and>
   (\<exists>out. applyCompressor NewAPRSProcessor [0x99, 0x19, 0x66, 0xE6, 0x64, 0x00] = Inr out \<and>
      length out = 6 \<and>
      length (samples out) = 3 \<and>
      \<bar>real_of_int (sint (samples out ! 0))\<bar> = 4095 \<and> \<not> sint (samples out ! 0) < 0 \<and>
      \<bar>real_of_int (sint (samples out ! 1))\<bar> = 4096 \<and> sint (samples out ! 1) < 0 \<and>
      samples out ! 2 = 100)"
proof -
  define data :: "byte list" where "data = [0x99, 0x19, 0x66, 0xE6, 0x64, 0x00]"
  have ev: "even (length data)" by (simp add: data_def)
  have s: "samples data = [6553, - 6554, 100]"
    by (simp add: data_def sample_of_def)
  have r4: "compressionRatio NewAPRSProcessor = Fin 4"
    by (simp add: NewAPRSProcessor_def)
  have n1: "\<bar>\<bar>real_of_int (sint (6553 :: int16))\<bar> - 2 * (32767 / 10)\<bar> < 1"
    and n2: "\<bar>\<bar>real_of_int (sint (- 6554 :: int16))\<bar> - 2 * (32767 / 10)\<bar> < 1"
    and n3: "\<bar>real_of_int (sint (100 :: int16))\<bar> \<le> 32767 / 10"
    by simp_all
  have a1: "32767 / 10 < \<bar>real_of_int (sint (6553 :: int16))\<bar>"
    and a2: "32767 / 10 < \<bar>real_of_int (sint (- 6554 :: int16))\<bar>"
    by simp_all
  have f1: "\<lfloor>32767 / 10 + (\<bar>real_of_int (sint (6553 :: int16))\<bar> - 32767 / 10) / 4\<rfloor> = 4095"
    and f2: "\<lfloor>32767 / 10 + (\<bar>real_of_int (sint (- 6554 :: int16))\<bar> - 32767 / 10) / 4\<rfloor> = 4096"
    by (simp_all add: floor_eq_iff)
  note c3 = C3_compressor[of data NewAPRSProcessor]
  from c3 ev obtain out where r: "applyCompressor NewAPRSProcessor data = Inr out" by blast
  with c3 have l: "length out = length data"
    and m: "samples out = map (\<lambda>s. if fgt (magnitude s) (Fin (32767 / 10))
               then compress_sample (Fin (32767 / 10)) (compressionRatio NewAPRSProcessor) s
               else s) (samples data)"
    by blast+
  from c3 r4 a1 have o1: "\<bar>real_of_int (sint (if fgt (magnitude (6553 :: int16)) (Fin (32767 / 10))
               then compress_sample (Fin (32767 / 10)) (compressionRatio NewAPRSProcessor) 6553
               else 6553))\<bar> = real_of_int \<lfloor>32767 / 10 + (\<bar>real_of_int (sint (6553 :: int16))\<bar> - 32767 / 10) / 4\<rfloor>"
    and g1: "(sint (if fgt (magnitude (6553 :: int16)) (Fin (32767 / 10))
               then compress_sample (Fin (32767 / 10)) (compressionRatio NewAPRSProcessor) 6553
               else 6553) < 0) = (sint (6553 :: int16) < 0)"
    by blast+
  from c3 r4 a2 have o2: "\<bar>real_of_int (sint (if fgt (magnitude (- 6554 :: int16)) (Fin (32767 / 10))
               then compress_sample (Fin (32767 / 10)) (compressionRatio NewAPRSProcessor) (- 6554)
               else - 6554))\<bar> = real_of_int \<lfloor>32767 / 10 + (\<bar>real_of_int (sint (- 6554 :: int16))\<bar> - 32767 / 10) / 4\<rfloor>"
    and g2: "(sint (if fgt (magnitude (- 6554 :: int16)) (Fin (32767 / 10))
               then compress_sample (Fin (32767 / 10)) (compressionRatio NewAPRSProcessor) (- 6554)
               else - 6554) < 0) = (sint (- 6554 :: int16) < 0)"
    by blast+
  from c3 n3 have o3: "(if fgt (magnitude (100 :: int16)) (Fin (32767 / 10))
               then compress_sample (Fin (32767 / 10)) (compressionRatio NewAPRSProcessor) 100
               else 100) = 100"
    by blast
  have p0: "\<bar>real_of_int (sint (samples out ! 0))\<bar> = 4095" "\<not> sint (samples out ! 0) < 0"
    using o1 g1 unfolding f1 m s by simp_all
  have p1: "\<bar>real_of_int (sint (samples out ! 1))\<bar> = 4096" "sint (samples out ! 1) < 0"
    using o2 g2 unfolding f2 m s by simp_all
  have p2: "samples out ! 2 = 100"
    using o3 unfolding m s by simp
  have l3: "length (samples out) = 3" unfolding m s by simp
  have l6: "length out = 6" using l by (simp add: data_def)
  show ?thesis
    using ev s r4 n1 n2 n3 r l6 l3 p0 p1 p2 unfolding data_def by blast
qed

section \<open>The setters of the dynamics parameters\<close>



section \<open>Gain and volume\<close>

text \<open>
  What the two checks do on each kind of value: a finite value is accepted exactly when
  it lies in the closed range, the infinities are rejected, and a rejected value leaves
  the endpoint as it was.
\<close>

lemma SetGain_finite:
  "SetGain (Fin g) i =
     (if 0 \<le> g \<and> g \<le> 2 then (None, i\<lparr>gain := Fin g\<rparr>) else (Some InvalidParameter, i))"
  by (auto simp: SetGain_def fgt_def)

lemma SetGain_infinite:
  "SetGain PInf i = (Some InvalidParameter, i)" "SetGain NInf i = (Some InvalidParameter, i)"
  by (simp_all add: SetGain_def fgt_def)

lemma SetVolume_finite:
  "SetVolume (Fin v) out =
     (if 0 \<le> v \<and> v \<le> 1 then (None, out\<lparr>volume := Fin v\<rparr>) else (Some InvalidParameter, out))"
  by (auto simp: SetVolume_def fgt_def)

lemma SetVolume_infinite:
  "SetVolume PInf out = (Some InvalidParameter, out)"
  "SetVolume NInf out = (Some InvalidParameter, out)"
  by (simp_all add: SetVolume_def fgt_def)

lemma SetGain_examples:
  "SetGain (Fin (- 1 / 10)) i = (Some InvalidParameter, i)"
  "SetGain (Fin (21 / 10)) i = (Some InvalidParameter, i)"
  "SetGain (Fin 2) i = (None, i\<lparr>gain := Fin 2\<rparr>)"
  by (simp_all add: SetGain_finite)

lemma setters_reject_unchanged:
  "fst (SetGain g i) \<noteq> None \<Longrightarrow> snd (SetGain g i) = i"
  "fst (SetVolume v out) \<noteq> None \<Longrightarrow> snd (SetVolume v out) = out"
  by (auto simp: SetGain_def SetVolume_def split: if_splits)

text \<open>
  Claim C6. The gain setter accepts exactly the closed range from 0.0 to 2.0 and the
  volume setter exactly the closed range from 0.0 to 1.0, and a rejected value leaves
  the stored one unchanged. The examples of the claim hold (\<open>SetGain_examples\<close>), and
  so does the claim on every finite value and on the infinities. It fails on NaN: both
  comparisons \<open>gain < 0.0\<close> and \<open>gain > 2.0\<close> are false for NaN, so the setters
  accept NaN and store it.
\<close>

theorem C6_setters_accept_NaN:
  "SetGain NaN i = (None, i\<lparr>gain := NaN\<rparr>) \<and>
   GetGain (snd (SetGain NaN i)) = NaN \<and>
   SetVolume NaN out = (None, out\<lparr>volume := NaN\<rparr>) \<and>
   GetVolume (snd (SetVolume NaN out)) = NaN"
  by (simp add: SetGain_def SetVolume_def GetGain_def GetVolume_def fgt_def)

section \<open>The playback queue\<close>

lemma NewOutput_queue:
  "NewOutput cfg = Inr out \<Longrightarrow> chan_cap (queue out) = 10 \<and> chan_items (queue out) = []"
  by (auto simp: NewOutput_def make_chan_def split: sum.splits)

text \<open>No operation of the endpoint replaces the channel: its capacity stays.\<close>

lemma queue_capacity_kept:
  "chan_cap (queue (snd (Output_Start drv out))) = chan_cap (queue out)"
  "chan_cap (queue (snd (Output_Stop out))) = chan_cap (queue out)"
  "chan_cap (queue (snd (PlayAudio data out))) = chan_cap (queue out)"
  "chan_cap (queue (snd (SetVolume v out))) = chan_cap (queue out)"
  "chan_cap (queue (ClearQueue out)) = chan_cap (queue out)"
  "Output_UpdateConfig c out = Inr (e, out') \<Longrightarrow> chan_cap (queue out') = chan_cap (queue out)"
  by (auto simp: Output_Start_def Output_Stop_def PlayAudio_def SetVolume_def ClearQueue_def
        Output_UpdateConfig_def try_send_def Let_def split: option.splits if_splits sum.splits)

text \<open>
  Claim C7. \<open>PlayAudio\<close> on a stopped playback endpoint fails with
  \<open>NotRunning\<close>. On a running endpoint whose queue has the capacity 10 and holds 10
  blocks it fails with \<open>QueueFull\<close> at once: the block is not queued, the endpoint is
  as before and the queue still holds 10 blocks. The queue that \<open>NewOutput\<close> makes has
  the capacity 10.
\<close>

theorem C7_PlayAudio:
  "(\<not> Output.isRunning out \<longrightarrow> PlayAudio data out = (Some NotRunning, out)) \<and>
   (Output.isRunning out \<and> chan_cap (queue out) = 10 \<and> GetQueueSize out = 10 \<longrightarrow>
      PlayAudio data out = (Some QueueFull, out) \<and>
      GetQueueSize (snd (PlayAudio data out)) = 10) \<and>
   (\<forall>cfg out0. NewOutput cfg = Inr out0 \<longrightarrow> chan_cap (queue out0) = 10)"
  by (auto simp: PlayAudio_def try_send_def GetQueueSize_def NewOutput_queue)

theorem C7_PlayAudio_witness:
  "(case NewOutput \<lparr> Input_DeviceName = ''mic'', Input_SampleRate = 48000, Input_Channels = 1,
                     Input_BufferSize = 4, Input_Gain = Fin 1, Input_Format = ''int16'',
                     Output_DeviceName = ''spk'', Output_SampleRate = 48000, Output_Channels = 1,
                     Output_BufferSize = 4, Output_Volume = Fin 1, Output_Format = ''int16'' \<rparr> of
      Inl p \<Rightarrow> False
    | Inr out0 \<Rightarrow>
        (let drv = \<lparr> GetDefaultDevice = (\<lambda>d. Some ''default''),
                     IsDeviceSupported = (\<lambda>n d r c f. True),
                     hasContext = True, initDeviceOk = True, deviceStartOk = True \<rparr>;
             out1 = snd (Output_Start drv out0);
             full = play_all [[1, 0], [2, 0], [3, 0], [4, 0], [5, 0],
                              [6, 0], [7, 0], [8, 0], [9, 0], [10, 0]] out1
         in \<not> Output.isRunning out0 \<and>
            PlayAudio [11, 0] out0 = (Some NotRunning, out0) \<and>
            Output.isRunning full \<and> chan_cap (queue full) = 10 \<and> GetQueueSize full = 10 \<and>
            PlayAudio [11, 0] full = (Some QueueFull, full) \<and>
            GetQueueSize (snd (PlayAudio [11, 0] full)) = 10))"
proof -
  define cfg where "cfg = \<lparr> Input_DeviceName = ''mic'', Input_SampleRate = 48000, Input_Channels = 1,
                     Input_BufferSize = 4, Input_Gain = Fin 1, Input_Format = ''int16'',
                     Output_DeviceName = ''spk'', Output_SampleRate = 48000, Output_Channels = 1,
                     Output_BufferSize = 4, Output_Volume = Fin 1, Output_Format = ''int16'' \<rparr>"
  define drv where "drv = \<lparr> GetDefaultDevice = (\<lambda>d::string. Some ''default''),
                     IsDeviceSupported = (\<lambda>(n::string) (d::string) (r::int) (c::int) (f::string). True),
                     hasContext = True, initDeviceOk = True, deviceStartOk = True \<rparr>"
  obtain out0 where n: "NewOutput cfg = Inr out0"
    by (simp add: NewOutput_def cfg_def make_bytes_def)
  define out1 where "out1 = snd (Output_Start drv out0)"
  define full where "full = play_all [[1, 0], [2, 0], [3, 0], [4, 0], [5, 0],
                              [6, 0], [7, 0], [8, 0], [9, 0], [10, 0]] out1"
  have s0: "\<not> Output.isRunning out0" "chan_cap (queue out0) = 10" "chan_items (queue out0) = []"
    using n by (auto simp: NewOutput_def cfg_def make_bytes_def make_chan_def)
  have s1: "Output.isRunning out1" "queue out1 = queue out0"
    using n by (auto simp: out1_def Output_Start_def drv_def NewOutput_def cfg_def make_bytes_def)
  have sf: "Output.isRunning full" "chan_cap (queue full) = 10" "GetQueueSize full = 10"
    using s0 s1 by (simp_all add: full_def PlayAudio_def try_send_def GetQueueSize_def)
  from C7_PlayAudio[of out0 "[11, 0]"] s0
  have a: "PlayAudio [11, 0] out0 = (Some NotRunning, out0)" by blast
  from C7_PlayAudio[of full "[11, 0]"] sf
  have b: "PlayAudio [11, 0] full = (Some QueueFull, full)"
    "GetQueueSize (snd (PlayAudio [11, 0] full)) = 10" by blast+
  have "let out1' = snd (Output_Start drv out0);
            full' = play_all [[1, 0], [2, 0], [3, 0], [4, 0], [5, 0],
                              [6, 0], [7, 0], [8, 0], [9, 0], [10, 0]] out1'
        in \<not> Output.isRunning out0 \<and>
            PlayAudio [11, 0] out0 = (Some NotRunning, out0) \<and>
            Output.isRunning full' \<and> chan_cap (queue full') = 10 \<and> GetQueueSize full' = 10 \<and>
            PlayAudio [11, 0] full' = (Some QueueFull, full') \<and>
            GetQueueSize (snd (PlayAudio [11, 0] full')) = 10"
    unfolding Let_def out1_def[symmetric] full_def[symmetric]
    using s0 sf a b by blast
  then show ?thesis
    unfolding cfg_def[symmetric] drv_def[symmetric] n sum.case Let_def .
qed

section \<open>Changing the configuration\<close>


text \<open>With a negative product there is no such buffer: \<open>make\<close> panics.\<close>

lemma UpdateConfig_negative_length:
  "\<not> Input.isRunning i \<Longrightarrow> Input_BufferSize c * Input_Channels c * 2 < 0 \<Longrightarrow>
   Input_UpdateConfig c i = Inl MakeSliceLenOutOfRange"
  "\<not> Output.isRunning out \<Longrightarrow> Output_BufferSize c * Output_Channels c * 2 < 0 \<Longrightarrow>
   Output_UpdateConfig c out = Inl MakeSliceLenOutOfRange"
  by (simp_all add: Input_UpdateConfig_def Output_UpdateConfig_def make_bytes_def)


section \<open>The lifecycle\<close>

lemma StartInput_failed_not_running:
  "\<not> Manager.isRunning m \<Longrightarrow> fst (StartInput drv m) \<noteq> None \<Longrightarrow>
   \<not> Manager.isRunning (snd (StartInput drv m))"
  by (auto simp: StartInput_def split: prod.splits option.splits)

lemma StartOutput_not_running:
  "\<not> Manager.isRunning m \<Longrightarrow> StartOutput drv m = (Some InputNotStarted, m)"
  by (simp add: StartOutput_def)

lemma Stop_not_running: "\<not> Manager.isRunning m \<Longrightarrow> Stop m = (None, m)"
  by (simp add: Stop_def)

lemma not_started_not_running:
  "\<not> Manager.isRunning m \<Longrightarrow> \<not> input_started cs m \<Longrightarrow>
   \<not> Manager.isRunning (run_calls cs m)"
proof (induction cs arbitrary: m)
  case Nil
  then show ?case by simp
next
  case (Cons c cs)
  show ?case
  proof (cases c)
    case (CallStartInput drv)
    with Cons.prems have "fst (StartInput drv m) \<noteq> None"
      and "\<not> input_started cs (snd (StartInput drv m))" by simp_all
    with Cons.prems(1) Cons.IH[of "snd (StartInput drv m)"] CallStartInput
    show ?thesis by (simp add: StartInput_failed_not_running)
  next
    case (CallStartOutput drv)
    with Cons.prems Cons.IH[of m] show ?thesis
      by (simp add: StartOutput_not_running)
  next
    case CallStop
    with Cons.prems Cons.IH[of m] show ?thesis
      by (simp add: Stop_not_running)
  qed
qed

lemma NewManager_stopped:
  "NewManager cfg = Inr m \<Longrightarrow>
   \<not> Manager.isRunning m \<and> \<not> Input.isRunning (input m) \<and> \<not> Output.isRunning (output m)"
  by (auto simp: NewManager_def NewInput_def NewOutput_def split: sum.splits)

text \<open>
  Claim C9. \<open>Start\<close> of an endpoint and \<open>StartInput\<close> of the manager fail when the
  state is Running, and leave the state as it is, Running. \<open>Stop\<close> of an endpoint or
  of the manager in the state Stopped returns no error and changes nothing.
  \<open>StartOutput\<close> fails with \<open>InputNotStarted\<close> whenever the manager is not running,
  and so after every run of lifecycle calls on a new manager in which no \<open>StartInput\<close>
  has returned without an error.
\<close>

theorem C9_lifecycle:
  "(Input.isRunning i \<longrightarrow> Input_Start drv i = (Some AlreadyRunning, i)) \<and>
   (Output.isRunning out \<longrightarrow> Output_Start drv out = (Some AlreadyRunning, out)) \<and>
   (Manager.isRunning m \<longrightarrow> StartInput drv m = (Some AlreadyRunning, m)) \<and>
   (\<not> Input.isRunning i \<longrightarrow> Input_Stop i = (None, i)) \<and>
   (\<not> Output.isRunning out \<longrightarrow> Output_Stop out = (None, out)) \<and>
   (\<not> Manager.isRunning m \<longrightarrow> Stop m = (None, m)) \<and>
   (\<not> Manager.isRunning m \<longrightarrow> StartOutput drv m = (Some InputNotStarted, m)) \<and>
   (\<forall>cfg m0 calls. NewManager cfg = Inr m0 \<and> \<not> input_started calls m0 \<longrightarrow>
      StartOutput drv (run_calls calls m0) = (Some InputNotStarted, run_calls calls m0))"
proof (intro conjI allI impI)
  fix cfg m0 calls
  assume "NewManager cfg = Inr m0 \<and> \<not> input_started calls m0"
  then have "\<not> Manager.isRunning (run_calls calls m0)"
    using NewManager_stopped[of cfg m0] not_started_not_running[of m0 calls] by blast
  then show "StartOutput drv (run_calls calls m0) = (Some InputNotStarted, run_calls calls m0)"
    by (rule StartOutput_not_running)
qed (simp_all add: Input_Start_def Output_Start_def StartInput_def Input_Stop_def
       Output_Stop_def Stop_def StartOutput_def)


theorem C9_lifecycle_witness:
  "(case NewManager \<lparr> Input_DeviceName = ''mic'', Input_SampleRate = 48000, Input_Channels = 1,
                     Input_BufferSize = 4, Input_Gain = Fin 1, Input_Format = ''int16'',
                     Output_DeviceName = ''spk'', Output_SampleRate = 48000, Output_Channels = 1,
                     Output_BufferSize = 4, Output_Volume = Fin 1, Output_Format = ''int16'' \<rparr> of
      Inl p \<Rightarrow> False
    | Inr m0 \<Rightarrow>
        (let ok = \<lparr> GetDefaultDevice = (\<lambda>d. Some ''default''),
                    IsDeviceSupported = (\<lambda>n d r c f. True),
                    hasContext = True, initDeviceOk = True, deviceStartOk = True \<rparr>;
             bad = \<lparr> GetDefaultDevice = (\<lambda>d. None),
                     IsDeviceSupported = (\<lambda>n d r c f. False),
                     hasContext = True, initDeviceOk = True, deviceStartOk = True \<rparr>;
             calls = [CallStartInput bad, CallStartOutput ok, CallStop];
             m1 = snd (StartInput ok m0);
             m2 = snd (StartOutput ok m1)
         in \<not> Manager.isRunning m0 \<and>
            StartOutput ok m0 = (Some InputNotStarted, m0) \<and>
            Stop m0 = (None, m0) \<and>
            \<not> Input.isRunning (input m0) \<and> Input_Stop (input m0) = (None, input m0) \<and>
            \<not> Output.isRunning (output m0) \<and> Output_Stop (output m0) = (None, output m0) \<and>
            \<not> input_started calls m0 \<and>
            StartOutput ok (run_calls calls m0) = (Some InputNotStarted, run_calls calls m0) \<and>
            Manager.isRunning m1 \<and> StartInput ok m1 = (Some AlreadyRunning, m1) \<and>
            Input.isRunning (input m1) \<and>
            Input_Start ok (input m1) = (Some AlreadyRunning, input m1) \<and>
            fst (StartOutput ok m1) = None \<and>
            Output.isRunning (output m2) \<and>
            Output_Start ok (output m2) = (Some AlreadyRunning, output m2)))"
proof -
  define cfg where "cfg = \<lparr> Input_DeviceName = ''mic'', Input_SampleRate = 48000, Input_Channels = 1,
                     Input_BufferSize = 4, Input_Gain = Fin 1, Input_Format = ''int16'',
                     Output_DeviceName = ''spk'', Output_SampleRate = 48000, Output_Channels = 1,
                     Output_BufferSize = 4, Output_Volume = Fin 1, Output_Format = ''int16'' \<rparr>"
  define ok where "ok = \<lparr> GetDefaultDevice = (\<lambda>d::string. Some ''default''),
                    IsDeviceSupported = (\<lambda>(n::string) (d::string) (r::int) (c::int) (f::string). True),
                    hasContext = True, initDeviceOk = True, deviceStartOk = True \<rparr>"
  define bad where "bad = \<lparr> GetDefaultDevice = (\<lambda>d::string. (None :: string option)),
                     IsDeviceSupported = (\<lambda>(n::string) (d::string) (r::int) (c::int) (f::string). False),
                     hasContext = True, initDeviceOk = True, deviceStartOk = True \<rparr>"
  obtain m0 where n: "NewManager cfg = Inr m0"
    by (simp add: NewManager_def NewInput_def NewOutput_def cfg_def make_bytes_def)
  define calls where "calls = [CallStartInput bad, CallStartOutput ok, CallStop]"
  define m1 where "m1 = snd (StartInput ok m0)"
  define m2 where "m2 = snd (StartOutput ok m1)"
  have s0: "\<not> Manager.isRunning m0" "\<not> Input.isRunning (input m0)"
    "\<not> Output.isRunning (output m0)"
    using NewManager_stopped[OF n] by simp_all
  have c0: "Input.config (input m0) = cfg" "Output.config (output m0) = cfg"
    using n by (auto simp: NewManager_def NewInput_def NewOutput_def cfg_def make_bytes_def)
  have bad_fails: "StartInput bad m0 = (Some (StartInputFailed (DeviceNotSupported ''mic'')), m0)"
    using s0 c0
    by (simp add: StartInput_def Input_Start_def bad_def cfg_def Let_def)
  have ns: "\<not> input_started calls m0"
    using s0 by (simp add: calls_def bad_fails StartOutput_def Stop_def)
  have i1: "Input_Start ok (input m0) = (None, (input m0)\<lparr>Input.device := True, Input.isRunning := True\<rparr>)"
    using s0 c0 by (simp add: Input_Start_def ok_def cfg_def Let_def)
  have s1: "Manager.isRunning m1" "Input.isRunning (input m1)" "output m1 = output m0"
    using s0 by (simp_all add: m1_def StartInput_def i1)
  have o1: "Output_Start ok (output m0) =
      (None, (output m0)\<lparr>Output.device := True, Output.isRunning := True\<rparr>)"
    using s0 c0 by (simp add: Output_Start_def ok_def cfg_def Let_def)
  have s2: "fst (StartOutput ok m1) = None" "Output.isRunning (output m2)"
    using s1 by (simp_all add: m2_def StartOutput_def o1)
  note c9 = C9_lifecycle[of "input m0" ok "output m0" m0]
  note c9r = C9_lifecycle[of "input m1" ok "output m2" m1]
  from c9 s0 have a: "StartOutput ok m0 = (Some InputNotStarted, m0)" "Stop m0 = (None, m0)"
    "Input_Stop (input m0) = (None, input m0)" "Output_Stop (output m0) = (None, output m0)"
    by blast+
  from c9 n ns
  have b: "StartOutput ok (run_calls calls m0) = (Some InputNotStarted, run_calls calls m0)"
    by blast
  from c9r s1 s2 have c: "StartInput ok m1 = (Some AlreadyRunning, m1)"
    "Input_Start ok (input m1) = (Some AlreadyRunning, input m1)"
    "Output_Start ok (output m2) = (Some AlreadyRunning, output m2)"
    by blast+
  have "\<not> Manager.isRunning m0 \<and>
            StartOutput ok m0 = (Some InputNotStarted, m0) \<and>
            Stop m0 = (None, m0) \<and>
            \<not> Input.isRunning (input m0) \<and> Input_Stop (input m0) = (None, input m0) \<and>
            \<not> Output.isRunning (output m0) \<and> Output_Stop (output m0) = (None, output m0) \<and>
            \<not> input_started calls m0 \<and>
            StartOutput ok (run_calls calls m0) = (Some InputNotStarted, run_calls calls m0) \<and>
            Manager.isRunning m1 \<and> StartInput ok m1 = (Some AlreadyRunning, m1) \<and>
            Input.isRunning (input m1) \<and>
            Input_Start ok (input m1) = (Some AlreadyRunning, input m1) \<and>
            fst (StartOutput ok m1) = None \<and>
            Output.isRunning (output m2) \<and>
            Output_Start ok (output m2) = (Some AlreadyRunning, output m2)"
    using s0 a ns b s1 c s2 by simp
  then show ?thesis
    unfolding m2_def m1_def calls_def
    unfolding cfg_def[symmetric] ok_def[symmetric] bad_def[symmetric] n sum.case Let_def .
qed

end
